theory Spec2Isabelle
  imports Main "HOL-Library.Sublist"
begin

section \<open>Workspace directory provider: data model\<close>

text \<open>
  Go strings are byte sequences; they are modelled as \<open>string\<close> (a list of 8-bit
  characters). Go maps \<open>map[string]T\<close> are modelled as partial functions: the source only
  ever stores and looks up keys in them on the paths modelled here.
\<close>

text \<open>
  \<open>slack.User\<close> of the client library, restricted to the fields the provider reads:
  \<open>ID\<close>, \<open>Name\<close>, \<open>RealName\<close>, \<open>Profile.DisplayName\<close> and \<open>Profile.Email\<close>.
\<close>

record slack_User =
  user_ID :: string
  user_Name :: string
  user_RealName :: string
  profile_DisplayName :: string
  profile_Email :: string

text \<open>The provider's own \<open>Channel\<close> struct, field by field.\<close>

record Channel =
  ID :: string
  Name :: string
  Topic :: string
  Purpose :: string
  MemberCount :: int
  IsMpIM :: bool
  IsIM :: bool
  IsPrivate :: bool
  User :: string
  Members :: "string list"

section \<open>Name/Purpose deriver\<close>

text \<open>\<open>strings.Join(elems, sep)\<close>.\<close>

fun Join :: "string list \<Rightarrow> string \<Rightarrow> string" where
  "Join [] sep = []"
| "Join [x] sep = x"
| "Join (x # y # xs) sep = x @ sep @ Join (y # xs) sep"

text \<open>
  The scan over the member list inside the direct-message branch of \<open>mapChannel\<close>:
  \<open>userID\<close> is empty when the loop starts, the first member found in the user map is
  assigned and the loop is left; with no hit \<open>userID\<close> stays empty.
\<close>

fun scanMembers :: "(string \<rightharpoonup> slack_User) \<Rightarrow> string list \<Rightarrow> string" where
  "scanMembers usersMap [] = []"
| "scanMembers usersMap (memberID # members) =
     (if usersMap memberID \<noteq> None then memberID else scanMembers usersMap members)"

text \<open>
  The loop of the group branch: each member contributes the real name found in the user
  map, or its own ID.
\<close>

definition memberNames :: "(string \<rightharpoonup> slack_User) \<Rightarrow> string list \<Rightarrow> string list" where
  "memberNames usersMap members =
     map (\<lambda>uid. case usersMap uid of Some u \<Rightarrow> user_RealName u | None \<Rightarrow> uid) members"

definition mapChannel ::
  "string \<Rightarrow> string \<Rightarrow> string \<Rightarrow> string \<Rightarrow> string \<Rightarrow> string \<Rightarrow> string list \<Rightarrow> int \<Rightarrow>
   bool \<Rightarrow> bool \<Rightarrow> bool \<Rightarrow> (string \<rightharpoonup> slack_User) \<Rightarrow> Channel" where
  "mapChannel id0 name nameNormalized topic purpose user members numMembers
     isIM isMpIM isPrivate usersMap =
   (if isIM then
      (let userID = (if user = [] \<and> length members > 0
                     then scanMembers usersMap members else user)
       in (case usersMap userID of
             Some u \<Rightarrow>
               \<lparr>ID = id0, Name = ''@'' @ user_Name u, Topic = [],
                Purpose = ''DM with '' @ user_RealName u, MemberCount = 2,
                IsMpIM = isMpIM, IsIM = isIM, IsPrivate = isPrivate,
                User = userID, Members = members\<rparr>
           | None \<Rightarrow>
               if userID \<noteq> [] then
                 \<lparr>ID = id0, Name = ''@'' @ userID, Topic = [],
                  Purpose = ''DM with '' @ userID, MemberCount = 2,
                  IsMpIM = isMpIM, IsIM = isIM, IsPrivate = isPrivate,
                  User = userID, Members = members\<rparr>
               else
                 \<lparr>ID = id0, Name = ''@'', Topic = [],
                  Purpose = ''DM with '', MemberCount = 2,
                  IsMpIM = isMpIM, IsIM = isIM, IsPrivate = isPrivate,
                  User = userID, Members = members\<rparr>))
    else if isMpIM then
      (if length members > 0 then
         \<lparr>ID = id0, Name = ''@'' @ nameNormalized, Topic = [],
          Purpose = ''Group DM with '' @ Join (memberNames usersMap members) '', '',
          MemberCount = int (length members),
          IsMpIM = isMpIM, IsIM = isIM, IsPrivate = isPrivate,
          User = [], Members = members\<rparr>
       else
         \<lparr>ID = id0, Name = name, Topic = topic, Purpose = purpose,
          MemberCount = numMembers,
          IsMpIM = isMpIM, IsIM = isIM, IsPrivate = isPrivate,
          User = [], Members = members\<rparr>)
    else
      \<lparr>ID = id0, Name = ''#'' @ nameNormalized, Topic = topic, Purpose = purpose,
       MemberCount = numMembers,
       IsMpIM = isMpIM, IsIM = isIM, IsPrivate = isPrivate,
       User = [], Members = members\<rparr>)"

text \<open>
  The peer of a direct message as the specification words it: the explicit peer field when
  it is not empty, otherwise the first member that the user directory knows, otherwise
  empty.
\<close>

definition resolvePeer :: "(string \<rightharpoonup> slack_User) \<Rightarrow> string \<Rightarrow> string list \<Rightarrow> string" where
  "resolvePeer usersMap user members =
     (if user \<noteq> [] then user
      else (case find (\<lambda>m. usersMap m \<noteq> None) members of Some m \<Rightarrow> m | None \<Rightarrow> []))"

section \<open>Credential selector\<close>

text \<open>
  \<open>auth.ValueAuth\<close> of the client library: the token and the cookie it was built from.
\<close>

record ValueAuth =
  SlackToken :: string
  Cookie :: string

text \<open>
  The three \<open>boot\<close> closures: \<open>newWithXOXP\<close> and \<open>newWithXOXB\<close> build the client from the
  token alone (and log different lines), \<open>newWithXOXC\<close> adds the cookies.
\<close>

datatype BootKind = BootXOXP | BootXOXB | BootXOXC

text \<open>
  A cache file path: the value of the environment variable when it is set, otherwise the
  named file inside the directory returned by \<open>getCacheDir\<close>.
\<close>

datatype CachePath = FromEnv string | InCacheDir string

text \<open>
  What the provider writes: log lines, requests to the remote service, rate-limit permits
  and snapshot files, in the order they happen.
\<close>

datatype event =
    WarnBotTokenInXOXP
  | WarnUserTokenInXOXB
  | LogUsingBotToken
  | LogAuthenticated
  | LogUnmarshalFailed
  | LogLoadedFromCache nat
  | LogFetchFailed string
  | LogFetchExhausted
  | LogWriteFailed
  | LogWrote
  | ReqAuthTest
  | ReqUsers
  | ReqConversations string
  | ReqConversationsEnterprise
  | Permit
  | WaitFailed

text \<open>
  \<open>ApiProvider\<close>. The two client handles are modelled by whether they are \<open>nil\<close>;
  \<open>authResponse\<close> is \<open>nil\<close> (\<open>None\<close>) until \<open>boot\<close> has run and then holds the
  \<open>EnterpriseID\<close>, the one field of the response that the provider reads. \<open>trace\<close> is not
  a field of the Go struct: it records the events of the run so far.
\<close>

record ApiProvider =
  boot :: BootKind
  bootAuth :: ValueAuth
  authResponse :: "string option"
  clientGeneric :: bool
  clientEnterprise :: bool
  users :: "string \<rightharpoonup> slack_User"
  usersInv :: "string \<rightharpoonup> string"
  usersDisplayNameInv :: "string \<rightharpoonup> string"
  usersRealNameInv :: "string \<rightharpoonup> string"
  usersEmailInv :: "string \<rightharpoonup> string"
  usersCache :: CachePath
  channels :: "string \<rightharpoonup> Channel"
  channelsInv :: "string \<rightharpoonup> string"
  channelsCache :: CachePath
  isBotToken :: bool
  trace :: "event list"

text \<open>A Go call either returns or panics.\<close>

datatype fatal =
    AuthError string
  | SessionTokenInXOXP
  | AuthenticationRequired
  | AuthTestError string
  | NilDereference

datatype 'a result = Return 'a | Panic fatal

definition cachePath :: "(string \<Rightarrow> string) \<Rightarrow> string \<Rightarrow> string \<Rightarrow> CachePath" where
  "cachePath getenv var file =
     (if getenv var = [] then InCacheDir file else FromEnv (getenv var))"

definition newProvider ::
  "(string \<Rightarrow> string) \<Rightarrow> BootKind \<Rightarrow> string \<Rightarrow> bool \<Rightarrow> ValueAuth \<Rightarrow> ApiProvider" where
  "newProvider getenv kind channelsFile isBot authProvider =
     \<lparr>boot = kind, bootAuth = authProvider, authResponse = None,
      clientGeneric = False, clientEnterprise = False,
      users = Map.empty, usersInv = Map.empty, usersDisplayNameInv = Map.empty,
      usersRealNameInv = Map.empty, usersEmailInv = Map.empty,
      usersCache = cachePath getenv ''SLACK_MCP_USERS_CACHE'' ''users_cache.json'',
      channels = Map.empty, channelsInv = Map.empty,
      channelsCache = cachePath getenv ''SLACK_MCP_CHANNELS_CACHE'' channelsFile,
      isBotToken = isBot, trace = []\<rparr>"

definition newWithXOXP :: "(string \<Rightarrow> string) \<Rightarrow> ValueAuth \<Rightarrow> ApiProvider" where
  "newWithXOXP getenv authProvider =
     newProvider getenv BootXOXP ''channels_cache.json'' False authProvider"

definition newWithXOXB :: "(string \<Rightarrow> string) \<Rightarrow> ValueAuth \<Rightarrow> ApiProvider" where
  "newWithXOXB getenv authProvider =
     newProvider getenv BootXOXB ''channels_cache.json'' True authProvider"

definition newWithXOXC :: "(string \<Rightarrow> string) \<Rightarrow> ValueAuth \<Rightarrow> ApiProvider" where
  "newWithXOXC getenv authProvider =
     newProvider getenv BootXOXC ''channels_cache_v2.json'' False authProvider"

text \<open>
  \<open>New\<close>. \<open>getenv\<close> is \<open>os.Getenv\<close> (empty for an unset variable). \<open>NewValueAuth\<close> is
  the constructor of the client library, which is not part of this repository: it is a
  parameter, returning the error or the credential. Log lines written before a panic are not
  kept.
\<close>

definition New ::
  "(string \<Rightarrow> string) \<Rightarrow> (string \<Rightarrow> string \<Rightarrow> string + ValueAuth) \<Rightarrow> ApiProvider result" where
  "New getenv NewValueAuth =
     (let xoxcToken = getenv ''SLACK_MCP_XOXC_TOKEN'';
          xoxdToken = getenv ''SLACK_MCP_XOXD_TOKEN'';
          xoxpToken = getenv ''SLACK_MCP_XOXP_TOKEN'';
          xoxbToken = getenv ''SLACK_MCP_XOXB_TOKEN''
      in
      if xoxcToken \<noteq> [] \<and> xoxdToken \<noteq> [] then
        (case NewValueAuth xoxcToken xoxdToken of
           Inl err \<Rightarrow> Panic (AuthError err)
         | Inr authProvider \<Rightarrow> Return (newWithXOXC getenv authProvider))
      else if xoxpToken \<noteq> [] then
        (if prefix ''xoxb-'' xoxpToken then
           (case NewValueAuth xoxpToken [] of
              Inl err \<Rightarrow> Panic (AuthError err)
            | Inr authProvider \<Rightarrow>
                Return ((newWithXOXB getenv authProvider)\<lparr>trace := [WarnBotTokenInXOXP]\<rparr>))
         else if prefix ''xoxc-'' xoxpToken then Panic SessionTokenInXOXP
         else
           (case NewValueAuth xoxpToken [] of
              Inl err \<Rightarrow> Panic (AuthError err)
            | Inr authProvider \<Rightarrow> Return (newWithXOXP getenv authProvider)))
      else if xoxbToken \<noteq> [] then
        (case NewValueAuth xoxbToken [] of
           Inl err \<Rightarrow> Panic (AuthError err)
         | Inr authProvider \<Rightarrow>
             Return ((newWithXOXB getenv authProvider)
               \<lparr>trace := (if prefix ''xoxp-'' xoxbToken then [WarnUserTokenInXOXB] else [])
                          @ [LogUsingBotToken]\<rparr>))
      else Panic AuthenticationRequired)"

text \<open>\<open>IsBotToken\<close> returns the flag.\<close>

definition IsBotToken :: "ApiProvider \<Rightarrow> bool" where
  "IsBotToken ap = isBotToken ap"

text \<open>
  A constructor that accepts every pair, used to run \<open>New\<close> on concrete environments.
\<close>

definition acceptAuth :: "string \<Rightarrow> string \<Rightarrow> string + ValueAuth" where
  "acceptAuth token cookie = Inr \<lparr>SlackToken = token, Cookie = cookie\<rparr>"

text \<open>An environment given by the variables that are set.\<close>

definition envOf :: "(string \<times> string) list \<Rightarrow> string \<Rightarrow> string" where
  "envOf vars name = (case map_of vars name of Some v \<Rightarrow> v | None \<Rightarrow> [])"

definition failsFast :: "'a result \<Rightarrow> bool" where
  "failsFast r = (case r of Panic f \<Rightarrow> True | Return x \<Rightarrow> False)"

section \<open>Invisible characters\<close>

text \<open>
  \<open>utf8.DecodeRuneInString\<close> on the bytes of a string: the code point and its width; an
  invalid or short encoding gives \<open>RuneError\<close> with width 1, the empty string width 0.
\<close>

definition RuneError :: nat where
  "RuneError = 0xFFFD"

definition cont :: "nat \<Rightarrow> bool" where
  "cont b \<longleftrightarrow> 0x80 \<le> b \<and> b \<le> 0xBF"

definition DecodeRune :: "nat list \<Rightarrow> nat \<times> nat" where
  "DecodeRune bs = (case bs of [] \<Rightarrow> (RuneError, 0) | b0 # rest \<Rightarrow>
     (if b0 < 0x80 then (b0, 1)
      else if 0xC2 \<le> b0 \<and> b0 \<le> 0xDF then
        (case rest of
           b1 # _ \<Rightarrow> if cont b1 then ((b0 - 0xC0) * 64 + (b1 - 0x80), 2) else (RuneError, 1)
         | _ \<Rightarrow> (RuneError, 1))
      else if 0xE0 \<le> b0 \<and> b0 \<le> 0xEF then
        (case rest of
           b1 # b2 # _ \<Rightarrow>
             if (if b0 = 0xE0 then 0xA0 else 0x80) \<le> b1 \<and>
                b1 \<le> (if b0 = 0xED then 0x9F else 0xBF) \<and> cont b2
             then ((b0 - 0xE0) * 4096 + (b1 - 0x80) * 64 + (b2 - 0x80), 3)
             else (RuneError, 1)
         | _ \<Rightarrow> (RuneError, 1))
      else if 0xF0 \<le> b0 \<and> b0 \<le> 0xF4 then
        (case rest of
           b1 # b2 # b3 # _ \<Rightarrow>
             if (if b0 = 0xF0 then 0x90 else 0x80) \<le> b1 \<and>
                b1 \<le> (if b0 = 0xF4 then 0x8F else 0xBF) \<and> cont b2 \<and> cont b3
             then ((b0 - 0xF0) * 262144 + (b1 - 0x80) * 4096 + (b2 - 0x80) * 64 + (b3 - 0x80), 4)
             else (RuneError, 1)
         | _ \<Rightarrow> (RuneError, 1))
      else (RuneError, 1)))"

text \<open>\<open>unicode.IsControl\<close>: the control characters of Latin-1.\<close>

definition IsControl :: "nat \<Rightarrow> bool" where
  "IsControl r \<longleftrightarrow> r < 0x20 \<or> (0x7F \<le> r \<and> r \<le> 0x9F)"

text \<open>The test inside \<open>normalizeString\<close>: the code points that are removed.\<close>

definition invisible :: "nat \<Rightarrow> bool" where
  "invisible r \<longleftrightarrow> r = 0x200B \<or> r = 0x200C \<or> r = 0x200D \<or> r = 0xFEFF \<or> IsControl r"

text \<open>
  \<open>normalizeString\<close> is \<open>strings.Map\<close> over the code points of the string: a removed code
  point contributes nothing, an invalid byte is written back as the encoding of
  \<open>RuneError\<close>, every other code point keeps its bytes.
\<close>

fun normalizeString :: "string \<Rightarrow> string" where
  "normalizeString [] = []"
| "normalizeString (c # s) =
     (if invisible (fst (DecodeRune (map of_char (c # s)))) then []
      else if fst (DecodeRune (map of_char (c # s))) = RuneError \<and>
              snd (DecodeRune (map of_char (c # s))) = 1
           then map char_of [0xEF, 0xBF, 0xBD :: nat]
      else take (snd (DecodeRune (map of_char (c # s)))) (c # s))
     @ normalizeString (drop (snd (DecodeRune (map of_char (c # s))) - 1) s)"

declare normalizeString.simps [simp del]

section \<open>Directory cache and fetcher\<close>

text \<open>
  \<open>slack.Channel\<close> as the remote service returns it, restricted to the fields that
  \<open>GetChannels\<close> reads.
\<close>

record raw_Channel =
  raw_ID :: string
  raw_Name :: string
  raw_NameNormalized :: string
  raw_Topic :: string
  raw_Purpose :: string
  raw_User :: string
  raw_Members :: "string list"
  raw_NumMembers :: int
  raw_IsIM :: bool
  raw_IsMpIM :: bool
  raw_IsPrivate :: bool
  raw_IsArchived :: bool

text \<open>
  A snapshot file as \<open>RefreshUsers\<close> and \<open>RefreshChannels\<close> see it: unreadable, readable
  but not parseable, or parsed into its records.
\<close>

datatype 'a snapshot = NoFile | Malformed | Parsed "'a list"

text \<open>
  Everything outside the provider. \<open>AuthTest\<close> returns an error or the enterprise ID of
  the identity; \<open>GetConversationsContext\<close> maps the cursor of a page request to an error or
  to the page and the next cursor; \<open>Wait\<close> tells, from the events so far, whether the
  rate limiter grants the permit (\<open>False\<close>: the context was cancelled while waiting);
  \<open>WriteFile\<close> tells whether writing a snapshot succeeds.
\<close>

record World =
  AuthTest :: "string + string"
  GetUsersContext :: "string + slack_User list"
  GetConversationsContext :: "string \<Rightarrow> string + raw_Channel list \<times> string"
  GetConversationsEnterprise :: "string + raw_Channel list"
  Wait :: "event list \<Rightarrow> bool"
  usersFile :: "slack_User snapshot"
  channelsFile :: "Channel snapshot"
  WriteFile :: bool

definition emit :: "event list \<Rightarrow> ApiProvider \<Rightarrow> ApiProvider" where
  "emit es ap = ap\<lparr>trace := trace ap @ es\<rparr>"

text \<open>
  \<open>ProvideGeneric\<close>: the client is built on first use by \<open>boot\<close>, which panics when the
  identity round trip fails and otherwise records the response.
\<close>

definition ProvideGeneric :: "World \<Rightarrow> ApiProvider \<Rightarrow> ApiProvider result" where
  "ProvideGeneric w ap =
     (if clientGeneric ap then Return ap
      else (case AuthTest w of
              Inl err \<Rightarrow> Panic (AuthTestError err)
            | Inr enterpriseID \<Rightarrow>
                Return (emit [ReqAuthTest, LogAuthenticated]
                  (ap\<lparr>clientGeneric := True, authResponse := Some enterpriseID\<rparr>))))"

text \<open>\<open>ProvideEnterprise\<close>; the error of the library constructor is discarded.\<close>

definition ProvideEnterprise :: "ApiProvider \<Rightarrow> ApiProvider" where
  "ProvideEnterprise ap = (if clientEnterprise ap then ap else ap\<lparr>clientEnterprise := True\<rparr>)"

text \<open>
  The body of the merge loop over users, the same in the snapshot path and in the fetch
  path of \<open>RefreshUsers\<close>.
\<close>

definition mergeUser :: "slack_User \<Rightarrow> ApiProvider \<Rightarrow> ApiProvider" where
  "mergeUser u ap =
     ap\<lparr>users := (users ap)(user_ID u \<mapsto> u),
        usersInv := (usersInv ap)(user_Name u \<mapsto> user_ID u),
        usersDisplayNameInv :=
          (if profile_DisplayName u \<noteq> []
           then (usersDisplayNameInv ap)(normalizeString (profile_DisplayName u) \<mapsto> user_ID u)
           else usersDisplayNameInv ap),
        usersRealNameInv :=
          (if user_RealName u \<noteq> []
           then (usersRealNameInv ap)(normalizeString (user_RealName u) \<mapsto> user_ID u)
           else usersRealNameInv ap),
        usersEmailInv :=
          (if profile_Email u \<noteq> []
           then (usersEmailInv ap)(profile_Email u \<mapsto> user_ID u)
           else usersEmailInv ap)\<rparr>"

definition fetchUsers :: "World \<Rightarrow> ApiProvider \<Rightarrow> (string option \<times> ApiProvider) result" where
  "fetchUsers w ap =
     (case ProvideGeneric w ap of
        Panic f \<Rightarrow> Panic f
      | Return ap1 \<Rightarrow>
          (case GetUsersContext w of
             Inl err \<Rightarrow> Return (Some err, emit [ReqUsers, LogFetchFailed err] ap1)
           | Inr us \<Rightarrow>
               Return (None,
                 emit [if WriteFile w then LogWrote else LogWriteFailed]
                   (fold mergeUser us (emit [ReqUsers] ap1)))))"


text \<open>The merge loop at the end of every iteration of \<open>GetChannels\<close>.\<close>

definition mergeChannel :: "Channel \<Rightarrow> ApiProvider \<Rightarrow> ApiProvider" where
  "mergeChannel ch ap =
     ap\<lparr>channels := (channels ap)(ID ch \<mapsto> ch),
        channelsInv := (channelsInv ap)(Name ch \<mapsto> ID ch)\<rparr>"

text \<open>The body of the loop over a parsed conversation snapshot in \<open>RefreshChannels\<close>.\<close>

definition remapChannel :: "(string \<rightharpoonup> slack_User) \<Rightarrow> Channel \<Rightarrow> Channel" where
  "remapChannel usersMap c =
     mapChannel (ID c) [] [] (Topic c) (Purpose c) (User c) (Members c) (MemberCount c)
       (IsIM c) (IsMpIM c) (IsPrivate c) usersMap"

definition loadChannel :: "(string \<rightharpoonup> slack_User) \<Rightarrow> Channel \<Rightarrow> ApiProvider \<Rightarrow> ApiProvider" where
  "loadChannel usersMap c ap =
     (if IsIM c then
        ap\<lparr>channels := (channels ap)(ID c \<mapsto> remapChannel usersMap c),
           channelsInv := (channelsInv ap)(Name (remapChannel usersMap c) \<mapsto> ID c)\<rparr>
      else
        ap\<lparr>channels := (channels ap)(ID c \<mapsto> c),
           channelsInv := (channelsInv ap)(Name c \<mapsto> ID c)\<rparr>)"

text \<open>The call of \<open>mapChannel\<close> on a conversation of the remote service.\<close>

definition mapRaw :: "(string \<rightharpoonup> slack_User) \<Rightarrow> raw_Channel \<Rightarrow> Channel" where
  "mapRaw usersMap channel =
     mapChannel (raw_ID channel) (raw_Name channel) (raw_NameNormalized channel)
       (raw_Topic channel) (raw_Purpose channel) (raw_User channel) (raw_Members channel)
       (raw_NumMembers channel) (raw_IsIM channel) (raw_IsMpIM channel) (raw_IsPrivate channel)
       usersMap"

text \<open>
  The \<open>for\<close> loop of \<open>GetChannels\<close>. Nothing bounds the number of pages the remote service
  serves, so the loop takes fuel, one unit per iteration, and \<open>None\<close> is running out of it.
  The arguments after the fuel are the enterprise ID of the identity, the provider, the
  slice \<open>chans\<close>, which is never reset between iterations, and the cursor of the request
  parameters. The result is \<open>False\<close> when the function returned \<open>nil\<close> from inside
  the loop and \<open>True\<close> when the loop was left by \<open>break\<close>. In the enterprise branch
  \<open>nextcur\<close> is never assigned, so it still is the cursor the loop was entered with.
\<close>

fun fetchLoop ::
  "nat \<Rightarrow> World \<Rightarrow> string \<Rightarrow> ApiProvider \<Rightarrow> Channel list \<Rightarrow> string \<Rightarrow> (bool \<times> ApiProvider) option" where
  "fetchLoop 0 w enterpriseID ap chans cursor = None"
| "fetchLoop (Suc fuel) w enterpriseID ap chans cursor =
     (if enterpriseID = [] then
        (case GetConversationsContext w cursor of
           Inl err \<Rightarrow> Some (True, emit [ReqConversations cursor, LogFetchFailed err] ap)
         | Inr (chans1, nextcur) \<Rightarrow>
             if \<not> Wait w (trace ap @ [ReqConversations cursor])
             then Some (False, emit [ReqConversations cursor, WaitFailed] ap)
             else if nextcur = []
             then Some (True, emit [LogFetchExhausted]
                    (fold mergeChannel (chans @ map (mapRaw (users ap)) chans1)
                       (emit [ReqConversations cursor, Permit] ap)))
             else fetchLoop fuel w enterpriseID
                    (fold mergeChannel (chans @ map (mapRaw (users ap)) chans1)
                       (emit [ReqConversations cursor, Permit] ap))
                    (chans @ map (mapRaw (users ap)) chans1) nextcur)
      else
        (case GetConversationsEnterprise w of
           Inl err \<Rightarrow> Some (True, emit [ReqConversationsEnterprise, LogFetchFailed err] ap)
         | Inr chans2 \<Rightarrow>
             if \<not> Wait w (trace ap @ [ReqConversationsEnterprise])
             then Some (False, emit [ReqConversationsEnterprise, WaitFailed] ap)
             else if cursor = []
             then Some (True, emit [LogFetchExhausted]
                    (fold mergeChannel
                       (chans @ map (mapRaw (users ap))
                          (filter (\<lambda>channel. \<not> raw_IsArchived channel) chans2))
                       (emit [ReqConversationsEnterprise, Permit] ap)))
             else fetchLoop fuel w enterpriseID
                    (fold mergeChannel
                       (chans @ map (mapRaw (users ap))
                          (filter (\<lambda>channel. \<not> raw_IsArchived channel) chans2))
                       (emit [ReqConversationsEnterprise, Permit] ap))
                    (chans @ map (mapRaw (users ap))
                       (filter (\<lambda>channel. \<not> raw_IsArchived channel) chans2))
                    cursor))"

definition AllChanTypes :: "string list" where
  "AllChanTypes = [''mpim'', ''im'', ''public_channel'', ''private_channel'']"

text \<open>
  The slice \<open>GetChannels\<close> returns: \<open>nil\<close>, or the cache filtered by the channel types.
  The source builds the second by ranging over the map once per type, in an order Go leaves
  open; \<open>timesListed\<close> tells how often a cached conversation occurs in it.
\<close>

datatype ChannelSlice = NilSlice | CacheByTypes "string list"

definition matchesType :: "string \<Rightarrow> Channel \<Rightarrow> bool" where
  "matchesType t channel \<longleftrightarrow>
     (t = ''public_channel'' \<and> \<not> IsPrivate channel) \<or>
     (t = ''private_channel'' \<and> IsPrivate channel) \<or>
     (t = ''im'' \<and> IsIM channel) \<or>
     (t = ''mpim'' \<and> IsMpIM channel)"

definition timesListed :: "string list \<Rightarrow> Channel \<Rightarrow> nat" where
  "timesListed channelTypes channel = length (filter (\<lambda>t. matchesType t channel) channelTypes)"

text \<open>
  \<open>GetChannels\<close>. Reading \<open>EnterpriseID\<close> through a \<open>nil\<close> response is a panic, which
  cannot happen after \<open>ProvideGeneric\<close> has built the client.
\<close>

definition GetChannels ::
  "nat \<Rightarrow> World \<Rightarrow> ApiProvider \<Rightarrow> string list \<Rightarrow> (ChannelSlice \<times> ApiProvider) result option" where
  "GetChannels fuel w ap channelTypes =
     (case ProvideGeneric w ap of
        Panic f \<Rightarrow> Some (Panic f)
      | Return ap1 \<Rightarrow>
          (case authResponse (ProvideEnterprise ap1) of
             None \<Rightarrow> Some (Panic NilDereference)
           | Some enterpriseID \<Rightarrow>
               (case fetchLoop fuel w enterpriseID (ProvideEnterprise ap1) [] [] of
                  None \<Rightarrow> None
                | Some (False, ap2) \<Rightarrow> Some (Return (NilSlice, ap2))
                | Some (True, ap2) \<Rightarrow>
                    Some (Return
                      (CacheByTypes (if channelTypes = [] then AllChanTypes else channelTypes),
                       ap2)))))"

text \<open>
  \<open>RefreshChannels\<close> returns the error (\<open>None\<close> for \<open>nil\<close>) and the provider after the
  call. The user map is read once, before the loop over the snapshot.
\<close>

definition fetchChannels ::
  "nat \<Rightarrow> World \<Rightarrow> ApiProvider \<Rightarrow> (string option \<times> ApiProvider) result option" where
  "fetchChannels fuel w ap =
     (case GetChannels fuel w ap AllChanTypes of
        None \<Rightarrow> None
      | Some (Panic f) \<Rightarrow> Some (Panic f)
      | Some (Return (res, ap1)) \<Rightarrow>
          Some (Return (None, emit [if WriteFile w then LogWrote else LogWriteFailed] ap1)))"

definition RefreshChannels ::
  "nat \<Rightarrow> World \<Rightarrow> ApiProvider \<Rightarrow> (string option \<times> ApiProvider) result option" where
  "RefreshChannels fuel w ap =
     (case channelsFile w of
        Parsed cachedChannels \<Rightarrow>
          Some (Return (None,
            emit [LogLoadedFromCache (length cachedChannels)]
              (fold (loadChannel (users ap)) cachedChannels ap)))
      | Malformed \<Rightarrow> fetchChannels fuel w (emit [LogUnmarshalFailed] ap)
      | NoFile \<Rightarrow> fetchChannels fuel w ap)"

section \<open>Index consistency\<close>

text \<open>
  No inverse index holds a key whose ID is missing from the canonical map.
\<close>

definition noDangling :: "ApiProvider \<Rightarrow> bool" where
  "noDangling ap \<longleftrightarrow>
     (\<forall>k i. usersInv ap k = Some i \<longrightarrow> users ap i \<noteq> None) \<and>
     (\<forall>k i. usersDisplayNameInv ap k = Some i \<longrightarrow> users ap i \<noteq> None) \<and>
     (\<forall>k i. usersRealNameInv ap k = Some i \<longrightarrow> users ap i \<noteq> None) \<and>
     (\<forall>k i. usersEmailInv ap k = Some i \<longrightarrow> users ap i \<noteq> None) \<and>
     (\<forall>k i. channelsInv ap k = Some i \<longrightarrow> channels ap i \<noteq> None)"






section \<open>Sample data\<close>

definition alice :: slack_User where
  "alice = \<lparr>user_ID = ''U1'', user_Name = ''alice'', user_RealName = ''Alice A'',
            profile_DisplayName = ''ali'', profile_Email = ''alice@example.com''\<rparr>"

definition bob :: slack_User where
  "bob = \<lparr>user_ID = ''U2'', user_Name = ''bob'', user_RealName = ''Bob B'',
          profile_DisplayName = [], profile_Email = []\<rparr>"

definition directory :: "string \<rightharpoonup> slack_User" where
  "directory = [''U1'' \<mapsto> alice, ''U2'' \<mapsto> bob]"



definition staleDM :: Channel where
  "staleDM = \<lparr>ID = ''D1'', Name = ''@U1'', Topic = [], Purpose = ''DM with U1'',
              MemberCount = 2, IsMpIM = False, IsIM = True, IsPrivate = True,
              User = ''U1'', Members = []\<rparr>"

definition general :: Channel where
  "general = \<lparr>ID = ''C1'', Name = ''#general'', Topic = ''news'', Purpose = ''all'',
              MemberCount = 7, IsMpIM = False, IsIM = False, IsPrivate = False,
              User = [], Members = []\<rparr>"

definition freshProvider :: ApiProvider where
  "freshProvider = newWithXOXP (envOf []) \<lparr>SlackToken = ''xoxp-1'', Cookie = []\<rparr>"

text \<open>An environment with no snapshot files in which every request fails.\<close>

definition offline :: World where
  "offline = \<lparr>AuthTest = Inl ''down'', GetUsersContext = Inl ''down'',
              GetConversationsContext = (\<lambda>cursor. Inl ''down''),
              GetConversationsEnterprise = Inl ''down'', Wait = (\<lambda>t. True),
              usersFile = NoFile, channelsFile = NoFile, WriteFile = True\<rparr>"

section \<open>Pagination and rate limiting\<close>








text \<open>
  Sample environments: one that serves three empty pages over the standard protocol, and
  one whose second page request fails.
\<close>

definition threePages :: World where
  "threePages = offline\<lparr>AuthTest := Inr [],
     GetConversationsContext := (\<lambda>cursor.
       if cursor = [] then Inr ([], ''c1'')
       else if cursor = ''c1'' then Inr ([], ''c2'')
       else if cursor = ''c2'' then Inr ([], [])
       else Inl ''invalid_cursor'')\<rparr>"


definition rawGeneral :: raw_Channel where
  "rawGeneral = \<lparr>raw_ID = ''C1'', raw_Name = ''general'', raw_NameNormalized = ''general'',
     raw_Topic = ''news'', raw_Purpose = ''all'', raw_User = [], raw_Members = [],
     raw_NumMembers = 7, raw_IsIM = False, raw_IsMpIM = False, raw_IsPrivate = False,
     raw_IsArchived = False\<rparr>"

definition secondPageFails :: World where
  "secondPageFails = offline\<lparr>AuthTest := Inr [],
     GetConversationsContext := (\<lambda>cursor.
       if cursor = [] then Inr ([rawGeneral], ''c1'') else Inl ''ratelimited'')\<rparr>"

section \<open>Text extraction\<close>

text \<open>\<open>unicode.IsSpace\<close>.\<close>

definition IsSpace :: "nat \<Rightarrow> bool" where
  "IsSpace r \<longleftrightarrow>
     (if r \<le> 0xFF then r = 0x09 \<or> r = 0x0A \<or> r = 0x0B \<or> r = 0x0C \<or> r = 0x0D \<or> r = 0x20 \<or>
        r = 0x85 \<or> r = 0xA0
      else r = 0x1680 \<or> (0x2000 \<le> r \<and> r \<le> 0x200A) \<or> r = 0x2028 \<or> r = 0x2029 \<or>
        r = 0x202F \<or> r = 0x205F \<or> r = 0x3000)"

text \<open>
  \<open>utf8.DecodeLastRuneInString\<close> on the bytes of a string: an ASCII last byte is the
  code point; otherwise the start of the encoding is looked for among the three bytes before
  the last one, and the code point decoded from there counts only if it ends with the string.
\<close>

definition RuneStart :: "nat \<Rightarrow> bool" where
  "RuneStart b \<longleftrightarrow> \<not> cont b"

definition DecodeLastRune :: "nat list \<Rightarrow> nat \<times> nat" where
  "DecodeLastRune bs =
     (if bs = [] then (RuneError, 0)
      else if last bs < 0x80 then (last bs, 1)
      else
        (let n = length bs;
             start =
               (if 2 \<le> n \<and> RuneStart (bs ! (n - 2)) then n - 2
                else if 3 \<le> n \<and> RuneStart (bs ! (n - 3)) then n - 3
                else if 4 \<le> n \<and> RuneStart (bs ! (n - 4)) then n - 4
                else (n - 4) - 1)
         in if start + snd (DecodeRune (drop start bs)) \<noteq> n then (RuneError, 1)
            else DecodeRune (drop start bs)))"

text \<open>
  \<open>strings.TrimSpace\<close>: leading code points that are white space are removed, then
  trailing ones (\<open>trimRightRev\<close> works on the reversed string).
\<close>

fun trimLeft :: "string \<Rightarrow> string" where
  "trimLeft [] = []"
| "trimLeft (c # s) =
     (if IsSpace (fst (DecodeRune (map of_char (c # s))))
      then trimLeft (drop (snd (DecodeRune (map of_char (c # s))) - 1) s)
      else c # s)"

fun trimRightRev :: "string \<Rightarrow> string" where
  "trimRightRev [] = []"
| "trimRightRev (c # r) =
     (if IsSpace (fst (DecodeLastRune (map of_char (rev (c # r)))))
      then trimRightRev (drop (snd (DecodeLastRune (map of_char (rev (c # r)))) - 1) r)
      else c # r)"

definition TrimSpace :: "string \<Rightarrow> string" where
  "TrimSpace s = rev (trimRightRev (rev (trimLeft s)))"

text \<open>\<open>fmt.Sprintf("%d", n)\<close>: the decimal digits, with a sign for a negative number.\<close>

fun digits :: "nat \<Rightarrow> string" where
  "digits n = (if n < 10 then [char_of (48 + n)] else digits (n div 10) @ [char_of (48 + n mod 10)])"

declare digits.simps [simp del]

definition Sprintf_d :: "int \<Rightarrow> string" where
  "Sprintf_d i = (if i < 0 then ''-'' @ digits (nat (- i)) else digits (nat i))"

text \<open>
  The parts of a message that the extraction reads. Each interface of the client library is
  a datatype with one constructor per implementation that the type switches name, and one
  for all others; a pointer that may be \<open>nil\<close> is an option.
\<close>

datatype RichTextSectionElement =
    RichTextSectionTextElement string
  | RichTextSectionLinkElement string string
  | RichTextSectionUserElement string
  | RichTextSectionChannelElement string
  | RichTextSectionEmojiElement string
  | RichTextSectionDateElement int
  | OtherSectionElement

datatype RichTextElement =
    RichTextSection "RichTextSectionElement list"
  | RichTextList "RichTextElement list"
  | RichTextQuote "RichTextSectionElement list"
  | RichTextPreformatted "RichTextSectionElement list"
  | OtherRichTextElement

datatype ContextElement = TextBlockObject string | ImageBlockElement string | OtherContextElement

datatype Block =
    SectionBlock "string option" "string option list"
  | RichTextBlock "RichTextElement list"
  | HeaderBlock "string option"
  | ContextBlock "ContextElement list"
  | OtherBlock

record Attachment =
  att_Title :: string
  att_TitleLink :: string
  att_Pretext :: string
  att_Text :: string
  att_AuthorName :: string
  att_Fields :: "(string \<times> string) list"
  att_Footer :: string
  att_Blocks :: "Block list"

record File =
  file_Name :: string
  file_Title :: string
  file_PreviewHighlight :: string

record Message =
  msg_Text :: string
  msg_Blocks :: "Block list"
  msg_Attachments :: "Attachment list"
  msg_Files :: "File list"

text \<open>The separator of all joins.\<close>

definition newline :: string where
  "newline = [CHR 0x0A]"

fun extractTextFromRichTextSectionElement :: "RichTextSectionElement \<Rightarrow> string list" where
  "extractTextFromRichTextSectionElement (RichTextSectionTextElement text) =
     (if text \<noteq> [] then [text] else [])"
| "extractTextFromRichTextSectionElement (RichTextSectionLinkElement url text) =
     (if url \<noteq> [] then [url @ '' - '' @ (if text = [] then url else text)] else [])"
| "extractTextFromRichTextSectionElement (RichTextSectionUserElement userID) =
     [''<@'' @ userID @ ''>'']"
| "extractTextFromRichTextSectionElement (RichTextSectionChannelElement channelID) =
     [''<#'' @ channelID @ ''>'']"
| "extractTextFromRichTextSectionElement (RichTextSectionEmojiElement name) =
     ['':'' @ name @ '':'']"
| "extractTextFromRichTextSectionElement (RichTextSectionDateElement timestamp) =
     [Sprintf_d timestamp]"
| "extractTextFromRichTextSectionElement OtherSectionElement = []"

fun extractTextFromRichTextElement :: "RichTextElement \<Rightarrow> string list" where
  "extractTextFromRichTextElement (RichTextSection elements) =
     concat (map extractTextFromRichTextSectionElement elements)"
| "extractTextFromRichTextElement (RichTextList items) =
     concat (map extractTextFromRichTextElement items)"
| "extractTextFromRichTextElement (RichTextQuote elements) =
     concat (map extractTextFromRichTextSectionElement elements)"
| "extractTextFromRichTextElement (RichTextPreformatted elements) =
     concat (map extractTextFromRichTextSectionElement elements)"
| "extractTextFromRichTextElement OtherRichTextElement = []"

definition extractTextFromRichTextBlock :: "RichTextElement list \<Rightarrow> string list" where
  "extractTextFromRichTextBlock elements = concat (map extractTextFromRichTextElement elements)"

definition extractTextFromSectionBlock :: "string option \<Rightarrow> string option list \<Rightarrow> string list" where
  "extractTextFromSectionBlock text blockFields =
     (case text of None \<Rightarrow> [] | Some t \<Rightarrow> [t]) @
     concat (map (\<lambda>field. case field of None \<Rightarrow> [] | Some t \<Rightarrow> [t]) blockFields)"

fun contextElementText :: "ContextElement \<Rightarrow> string list" where
  "contextElementText (TextBlockObject text) = [text]"
| "contextElementText (ImageBlockElement altText) =
     (if altText \<noteq> [] then [''[Image: '' @ altText @ '']''] else [])"
| "contextElementText OtherContextElement = []"

definition extractTextFromContextBlock :: "ContextElement list \<Rightarrow> string list" where
  "extractTextFromContextBlock elements = concat (map contextElementText elements)"

fun blockParts :: "Block \<Rightarrow> string list" where
  "blockParts (SectionBlock text blockFields) = extractTextFromSectionBlock text blockFields"
| "blockParts (RichTextBlock elements) = extractTextFromRichTextBlock elements"
| "blockParts (HeaderBlock text) = (case text of None \<Rightarrow> [] | Some t \<Rightarrow> [t])"
| "blockParts (ContextBlock elements) = extractTextFromContextBlock elements"
| "blockParts OtherBlock = []"

definition extractTextFromBlocks :: "Block list \<Rightarrow> string" where
  "extractTextFromBlocks blocks = Join (concat (map blockParts blocks)) newline"

definition attachmentParts :: "Attachment \<Rightarrow> string list" where
  "attachmentParts att =
     (if att_Title att \<noteq> []
      then [att_Title att @
              (if att_TitleLink att \<noteq> [] then '' ('' @ att_TitleLink att @ '')'' else [])]
      else []) @
     (if att_Pretext att \<noteq> [] then [att_Pretext att] else []) @
     (if att_Text att \<noteq> [] then [att_Text att] else []) @
     (if att_AuthorName att \<noteq> [] then [''Author: '' @ att_AuthorName att] else []) @
     map (\<lambda>(title, val). title @ '': '' @ val) (att_Fields att) @
     (if att_Footer att \<noteq> [] then [att_Footer att] else []) @
     (if length (att_Blocks att) > 0 \<and> extractTextFromBlocks (att_Blocks att) \<noteq> []
      then [extractTextFromBlocks (att_Blocks att)] else [])"

definition extractTextFromAttachments :: "Attachment list \<Rightarrow> string" where
  "extractTextFromAttachments attachments = Join (concat (map attachmentParts attachments)) newline"

definition fileParts :: "File \<Rightarrow> string list" where
  "fileParts file =
     [if file_Title file \<noteq> [] \<and> file_Title file \<noteq> file_Name file
      then ''[File: '' @ file_Title file @ '' ('' @ file_Name file @ '')]''
      else ''[File: '' @ file_Name file @ '']''] @
     (if file_PreviewHighlight file \<noteq> [] then [file_PreviewHighlight file] else [])"

definition extractTextFromFiles :: "File list \<Rightarrow> string" where
  "extractTextFromFiles files = Join (concat (map fileParts files)) newline"

text \<open>
  The loop of \<open>deduplicateAndJoin\<close>: \<open>seen\<close> is the map of parts already taken,
  \<open>unique\<close> the slice being built.
\<close>

fun dedupLoop :: "(string \<Rightarrow> bool) \<Rightarrow> string list \<Rightarrow> string list \<Rightarrow> string list" where
  "dedupLoop seen unique [] = unique"
| "dedupLoop seen unique (part # parts) =
     (if TrimSpace part = [] then dedupLoop seen unique parts
      else if \<not> seen (TrimSpace part)
           then dedupLoop (seen(TrimSpace part := True)) (unique @ [TrimSpace part]) parts
      else dedupLoop seen unique parts)"

definition deduplicateAndJoin :: "string list \<Rightarrow> string" where
  "deduplicateAndJoin parts =
     (if length parts = 0 then [] else Join (dedupLoop (\<lambda>part. False) [] parts) newline)"

definition ExtractTextFromMessage :: "Message \<Rightarrow> string" where
  "ExtractTextFromMessage msg =
     deduplicateAndJoin
       ((if msg_Text msg \<noteq> [] then [msg_Text msg] else []) @
        (if length (msg_Blocks msg) > 0 \<and> extractTextFromBlocks (msg_Blocks msg) \<noteq> []
         then [extractTextFromBlocks (msg_Blocks msg)] else []) @
        (if length (msg_Attachments msg) > 0 \<and>
            extractTextFromAttachments (msg_Attachments msg) \<noteq> []
         then [extractTextFromAttachments (msg_Attachments msg)] else []) @
        (if length (msg_Files msg) > 0 \<and> extractTextFromFiles (msg_Files msg) \<noteq> []
         then [extractTextFromFiles (msg_Files msg)] else []))"

text \<open>
  A message whose text is repeated by the first of two section blocks.
\<close>

definition helloTwice :: Message where
  "helloTwice = \<lparr>msg_Text = ''Hello'',
     msg_Blocks = [SectionBlock (Some ''Hello'') [], SectionBlock (Some ''World'') []],
     msg_Attachments = [], msg_Files = []\<rparr>"

section \<open>Properties of the deriver\<close>

lemma scanMembers_find:
  "scanMembers usersMap members =
     (case find (\<lambda>m. usersMap m \<noteq> None) members of Some m \<Rightarrow> m | None \<Rightarrow> [])"
  by (induction members) simp_all

lemma mapChannel_peer:
  "User (mapChannel id0 name nn topic purpose user members n True isMpIM isPrivate usersMap) =
     resolvePeer usersMap user members"
  by (cases members)
     (simp_all add: mapChannel_def resolvePeer_def scanMembers_find Let_def
        split: option.split)

text \<open>
  Claim C1. With the direct-message flag set, the derived conversation has member count 2
  whatever count was passed in, its peer is the explicit peer field or else the first member
  known to the user directory, its name is \<open>@\<close> followed by the username of the resolved
  peer, or by the raw peer ID when the directory does not know it, or nothing when no peer
  ID is known, its purpose is \<open>DM with\<close> followed by the real name, the raw ID or nothing in
  the same three tiers, and its topic is empty.
\<close>

theorem mapChannel_direct_message:
  assumes "ch = mapChannel id0 name nn topic purpose user members n True isMpIM isPrivate usersMap"
    and "peer = resolvePeer usersMap user members"
  shows
    "MemberCount ch = 2 \<and> Topic ch = [] \<and> User ch = peer \<and>
     (\<forall>u. usersMap peer = Some u \<longrightarrow>
        Name ch = ''@'' @ user_Name u \<and> Purpose ch = ''DM with '' @ user_RealName u) \<and>
     (usersMap peer = None \<and> peer \<noteq> [] \<longrightarrow>
        Name ch = ''@'' @ peer \<and> Purpose ch = ''DM with '' @ peer) \<and>
     (usersMap peer = None \<and> peer = [] \<longrightarrow>
        Name ch = ''@'' \<and> Purpose ch = ''DM with '')"
proof -
  have peer_eq: "(if user = [] \<and> length members > 0
         then scanMembers usersMap members else user) = peer"
    unfolding assms(2)
    by (cases members) (simp_all add: resolvePeer_def scanMembers_find)
  show ?thesis
    unfolding assms(1) mapChannel_def peer_eq Let_def
    by (simp split: option.split)
qed

text \<open>
  The three tiers on the sample directory: a peer found through the member list (the first
  example of the specification), a peer the directory does not know (the second example),
  and no peer at all.
\<close>

theorem mapChannel_direct_message_witness:
  "Name (mapChannel ''D1'' [] [] ''t'' ''p'' [] [''U1''] 5 True False True directory)
     = ''@alice'' \<and>
   Purpose (mapChannel ''D1'' [] [] ''t'' ''p'' [] [''U1''] 5 True False True directory)
     = ''DM with Alice A'' \<and>
   MemberCount (mapChannel ''D1'' [] [] ''t'' ''p'' [] [''U1''] 5 True False True directory)
     = 2 \<and>
   Topic (mapChannel ''D1'' [] [] ''t'' ''p'' [] [''U1''] 5 True False True directory)
     = [] \<and>
   Name (mapChannel ''D2'' [] [] ''t'' ''p'' ''U9'' [] 7 True False True directory)
     = ''@U9'' \<and>
   Purpose (mapChannel ''D2'' [] [] ''t'' ''p'' ''U9'' [] 7 True False True directory)
     = ''DM with U9'' \<and>
   Name (mapChannel ''D3'' [] [] ''t'' ''p'' [] [''U8''] 0 True False True directory)
     = ''@'' \<and>
   Purpose (mapChannel ''D3'' [] [] ''t'' ''p'' [] [''U8''] 0 True False True directory)
     = ''DM with ''"
  using
    mapChannel_direct_message
      [OF refl refl, where ?id0.0 = "''D1''" and name = "[]" and nn = "[]"
         and topic = "''t''" and purpose = "''p''" and user = "[]" and members = "[''U1'']"
         and n = 5 and isMpIM = False and isPrivate = True and usersMap = directory]
    mapChannel_direct_message
      [OF refl refl, where ?id0.0 = "''D2''" and name = "[]" and nn = "[]"
         and topic = "''t''" and purpose = "''p''" and user = "''U9''" and members = "[]"
         and n = 7 and isMpIM = False and isPrivate = True and usersMap = directory]
    mapChannel_direct_message
      [OF refl refl, where ?id0.0 = "''D3''" and name = "[]" and nn = "[]"
         and topic = "''t''" and purpose = "''p''" and user = "[]" and members = "[''U8'']"
         and n = 0 and isMpIM = False and isPrivate = True and usersMap = directory]
  by (simp add: resolvePeer_def directory_def alice_def bob_def)

text \<open>
  Claim C8. With the group-direct-message flag set (and the direct-message flag clear, the
  categories being exclusive) and a non-empty member list, the member count is the length of
  the member list, the name is \<open>@\<close> followed by the normalized name, the purpose is
  \<open>Group DM with\<close> followed by the members' real names joined by a comma and a space, a member
  unknown to the directory contributing its ID, and the topic is empty. With an empty member
  list the name, purpose, topic and member count passed in are returned as they are.
\<close>

theorem mapChannel_group_direct_message:
  assumes "ch = mapChannel id0 name nn topic purpose user members n False True isPrivate usersMap"
  shows
    "(members \<noteq> [] \<longrightarrow>
        MemberCount ch = int (length members) \<and>
        Name ch = ''@'' @ nn \<and>
        Purpose ch = ''Group DM with '' @
          Join (map (\<lambda>uid. case usersMap uid of Some u \<Rightarrow> user_RealName u | None \<Rightarrow> uid)
                  members) '', '' \<and>
        Topic ch = []) \<and>
     (members = [] \<longrightarrow>
        Name ch = name \<and> Purpose ch = purpose \<and> Topic ch = topic \<and> MemberCount ch = n)"
  unfolding assms mapChannel_def memberNames_def by simp

text \<open>
  The group example of the specification, members \<open>U1\<close> and \<open>U2\<close> with real names
  \<open>Alice A\<close> and \<open>Bob B\<close>, and a group without members.
\<close>

theorem mapChannel_group_direct_message_witness:
  "Purpose (mapChannel ''G1'' ''mpdm-a--b-1'' ''mpdm-a--b-1'' ''t'' ''p'' [] [''U1'', ''U2''] 0
      False True True directory) = ''Group DM with Alice A, Bob B'' \<and>
   MemberCount (mapChannel ''G1'' ''mpdm-a--b-1'' ''mpdm-a--b-1'' ''t'' ''p'' [] [''U1'', ''U2''] 0
      False True True directory) = 2 \<and>
   Name (mapChannel ''G1'' ''mpdm-a--b-1'' ''mpdm-a--b-1'' ''t'' ''p'' [] [''U1'', ''U2''] 0
      False True True directory) = ''@mpdm-a--b-1'' \<and>
   Topic (mapChannel ''G1'' ''mpdm-a--b-1'' ''mpdm-a--b-1'' ''t'' ''p'' [] [''U1'', ''U2''] 0
      False True True directory) = [] \<and>
   Name (mapChannel ''G2'' ''raw'' ''norm'' ''t'' ''p'' [] [] 4 False True True directory)
     = ''raw'' \<and>
   Purpose (mapChannel ''G2'' ''raw'' ''norm'' ''t'' ''p'' [] [] 4 False True True directory)
     = ''p'' \<and>
   Topic (mapChannel ''G2'' ''raw'' ''norm'' ''t'' ''p'' [] [] 4 False True True directory)
     = ''t'' \<and>
   MemberCount (mapChannel ''G2'' ''raw'' ''norm'' ''t'' ''p'' [] [] 4 False True True directory)
     = 4"
  using
    mapChannel_group_direct_message
      [OF refl, where ?id0.0 = "''G1''" and name = "''mpdm-a--b-1''"
         and nn = "''mpdm-a--b-1''" and topic = "''t''" and purpose = "''p''" and user = "[]"
         and members = "[''U1'', ''U2'']" and n = 0 and isPrivate = True
         and usersMap = directory]
    mapChannel_group_direct_message
      [OF refl, where ?id0.0 = "''G2''" and name = "''raw''"
         and nn = "''norm''" and topic = "''t''" and purpose = "''p''" and user = "[]"
         and members = "[]" and n = 4 and isPrivate = True and usersMap = directory]
  by (simp add: directory_def alice_def bob_def)






section \<open>Properties of the credential selector\<close>

lemma isBotToken_newWithXOXB: "isBotToken (newWithXOXB getenv a) = True"
  by (simp add: newWithXOXB_def newProvider_def)

text \<open>
  Claim C3, as the claim states it, fails: a user-shaped token in the bot-token slot does
  not make \<open>New\<close> fail, it yields a provider.
\<close>

theorem New_user_token_in_bot_slot_counterexample:
  "\<not> failsFast (New (envOf [(''SLACK_MCP_XOXB_TOKEN'', ''xoxp-1'')]) acceptAuth)"
  by (simp add: failsFast_def New_def Let_def envOf_def acceptAuth_def)

text \<open>
  Claim C3, amended. With no session pair configured, of the three misplaced shapes that
  \<open>New\<close> detects only a session-shaped token in the user-token slot is fatal. A bot-shaped
  token in the user-token slot is accepted as a bot credential, with a warning and the
  capability flag set; a user-shaped token in the bot-token slot (the user-token slot being
  empty) is accepted as a bot credential too, with a warning and the capability flag set.
\<close>

theorem New_wrong_slot:
  assumes "getenv ''SLACK_MCP_XOXC_TOKEN'' = [] \<or> getenv ''SLACK_MCP_XOXD_TOKEN'' = []"
    and "xoxp = getenv ''SLACK_MCP_XOXP_TOKEN''"
    and "xoxb = getenv ''SLACK_MCP_XOXB_TOKEN''"
  shows
    "(prefix ''xoxc-'' xoxp \<longrightarrow> New getenv NewValueAuth = Panic SessionTokenInXOXP) \<and>
     (\<forall>a. prefix ''xoxb-'' xoxp \<and> NewValueAuth xoxp [] = Inr a \<longrightarrow>
        (\<exists>ap. New getenv NewValueAuth = Return ap \<and> IsBotToken ap \<and>
              boot ap = BootXOXB \<and> bootAuth ap = a \<and> trace ap = [WarnBotTokenInXOXP])) \<and>
     (\<forall>a. xoxp = [] \<and> prefix ''xoxp-'' xoxb \<and> NewValueAuth xoxb [] = Inr a \<longrightarrow>
        (\<exists>ap. New getenv NewValueAuth = Return ap \<and> IsBotToken ap \<and>
              boot ap = BootXOXB \<and> bootAuth ap = a \<and>
              trace ap = [WarnUserTokenInXOXB, LogUsingBotToken]))"
proof -
  have nopair:
    "(getenv ''SLACK_MCP_XOXC_TOKEN'' \<noteq> [] \<and> getenv ''SLACK_MCP_XOXD_TOKEN'' \<noteq> []) = False"
    using assms(1) by blast
  have session: "prefix ''xoxc-'' xoxp \<Longrightarrow> New getenv NewValueAuth = Panic SessionTokenInXOXP"
  proof -
    assume p: "prefix ''xoxc-'' xoxp"
    then have "xoxp \<noteq> []" and "\<not> prefix ''xoxb-'' xoxp"
      by (auto simp: prefix_def)
    with p show ?thesis
      unfolding New_def Let_def assms(2) nopair by simp
  qed
  have bot_in_user: "prefix ''xoxb-'' xoxp \<Longrightarrow> NewValueAuth xoxp [] = Inr a \<Longrightarrow>
      New getenv NewValueAuth = Return ((newWithXOXB getenv a)\<lparr>trace := [WarnBotTokenInXOXP]\<rparr>)" for a
  proof -
    assume p: "prefix ''xoxb-'' xoxp" and a: "NewValueAuth xoxp [] = Inr a"
    from p have "xoxp \<noteq> []" by (auto simp: prefix_def)
    with p a show ?thesis
      unfolding New_def Let_def assms(2) nopair by simp
  qed
  have user_in_bot: "xoxp = [] \<Longrightarrow> prefix ''xoxp-'' xoxb \<Longrightarrow> NewValueAuth xoxb [] = Inr a \<Longrightarrow>
      New getenv NewValueAuth =
        Return ((newWithXOXB getenv a)\<lparr>trace := [WarnUserTokenInXOXB, LogUsingBotToken]\<rparr>)" for a
  proof -
    assume e: "xoxp = []" and p: "prefix ''xoxp-'' xoxb" and a: "NewValueAuth xoxb [] = Inr a"
    from p have "xoxb \<noteq> []" by (auto simp: prefix_def)
    with e p a show ?thesis
      unfolding New_def Let_def assms(2) assms(3) nopair by simp
  qed
  show ?thesis
    using session bot_in_user user_in_bot
    by (simp add: IsBotToken_def newWithXOXB_def newProvider_def)
qed

theorem New_wrong_slot_witness:
  "New (envOf [(''SLACK_MCP_XOXP_TOKEN'', ''xoxc-1'')]) acceptAuth = Panic SessionTokenInXOXP \<and>
   (\<exists>ap. New (envOf [(''SLACK_MCP_XOXB_TOKEN'', ''xoxp-1'')]) acceptAuth = Return ap \<and>
      IsBotToken ap \<and> trace ap = [WarnUserTokenInXOXB, LogUsingBotToken]) \<and>
   (\<exists>ap. New (envOf [(''SLACK_MCP_XOXP_TOKEN'', ''xoxb-1'')]) acceptAuth = Return ap \<and>
      IsBotToken ap \<and> trace ap = [WarnBotTokenInXOXP])"
  using
    New_wrong_slot [OF _ refl refl,
      where getenv = "envOf [(''SLACK_MCP_XOXP_TOKEN'', ''xoxc-1'')]"
        and NewValueAuth = acceptAuth]
    New_wrong_slot [OF _ refl refl,
      where getenv = "envOf [(''SLACK_MCP_XOXB_TOKEN'', ''xoxp-1'')]"
        and NewValueAuth = acceptAuth]
    New_wrong_slot [OF _ refl refl,
      where getenv = "envOf [(''SLACK_MCP_XOXP_TOKEN'', ''xoxb-1'')]"
        and NewValueAuth = acceptAuth]
  by (auto simp: envOf_def acceptAuth_def)



section \<open>Properties of the directory cache\<close>

lemma emit_fields [simp]:
  "users (emit es ap) = users ap" "usersInv (emit es ap) = usersInv ap"
  "usersDisplayNameInv (emit es ap) = usersDisplayNameInv ap"
  "usersRealNameInv (emit es ap) = usersRealNameInv ap"
  "usersEmailInv (emit es ap) = usersEmailInv ap"
  "channels (emit es ap) = channels ap" "channelsInv (emit es ap) = channelsInv ap"
  "trace (emit es ap) = trace ap @ es"
  "clientGeneric (emit es ap) = clientGeneric ap"
  "authResponse (emit es ap) = authResponse ap"
  by (simp_all add: emit_def)

lemma loadChannel_fields [simp]:
  "users (loadChannel um c ap) = users ap" "usersInv (loadChannel um c ap) = usersInv ap"
  "usersDisplayNameInv (loadChannel um c ap) = usersDisplayNameInv ap"
  "usersRealNameInv (loadChannel um c ap) = usersRealNameInv ap"
  "usersEmailInv (loadChannel um c ap) = usersEmailInv ap"
  "trace (loadChannel um c ap) = trace ap"
  by (simp_all add: loadChannel_def)

lemma fold_loadChannel_fields [simp]:
  "users (fold (loadChannel um) cs ap) = users ap"
  "trace (fold (loadChannel um) cs ap) = trace ap"
  by (induction cs arbitrary: ap) simp_all

lemma loadChannel_channels:
  "channels (loadChannel um c ap) =
     (channels ap)(ID c \<mapsto> (if IsIM c then remapChannel um c else c))"
  by (simp add: loadChannel_def)

lemma fold_loadChannel_other:
  "k \<notin> ID ` set cs \<Longrightarrow> channels (fold (loadChannel um) cs ap) k = channels ap k"
  by (induction cs arbitrary: ap) (simp_all add: loadChannel_channels)

lemma fold_loadChannel_last:
  "ID c \<notin> ID ` set post \<Longrightarrow>
   channels (fold (loadChannel um) post (loadChannel um c ap)) (ID c) =
     Some (if IsIM c then remapChannel um c else c)"
  by (simp add: fold_loadChannel_other loadChannel_channels)

text \<open>
  Claim C2. When the conversation snapshot parses, \<open>RefreshChannels\<close> returns without
  error and without any request (the only event is the log line), the user directory is
  untouched, and for every entry of the snapshot that no later entry with the same ID
  overrides, the cache holds under its ID the output of the deriver on the stored topic,
  purpose, peer, members and flags with the current user directory when the entry is a
  direct message, and the entry itself otherwise.
\<close>

theorem RefreshChannels_reload:
  assumes "channelsFile w = Parsed cachedChannels"
  shows "\<exists>ap'. RefreshChannels fuel w ap = Some (Return (None, ap')) \<and>
           trace ap' = trace ap @ [LogLoadedFromCache (length cachedChannels)] \<and>
           users ap' = users ap \<and>
           (\<forall>pre c post. cachedChannels = pre @ c # post \<and> ID c \<notin> ID ` set post \<longrightarrow>
              (IsIM c \<longrightarrow>
                 channels ap' (ID c) =
                   Some (mapChannel (ID c) [] [] (Topic c) (Purpose c) (User c) (Members c)
                           (MemberCount c) True (IsMpIM c) (IsPrivate c) (users ap))) \<and>
              (\<not> IsIM c \<longrightarrow> channels ap' (ID c) = Some c))"
  using assms
  by (auto simp: RefreshChannels_def fold_loadChannel_last remapChannel_def)

text \<open>
  A snapshot written before the peer was known, reloaded when the directory knows \<open>U1\<close>:
  the direct message gets the name of the peer, the channel is kept as it is.
\<close>

theorem RefreshChannels_reload_witness:
  "\<exists>ap'. RefreshChannels 0 (offline\<lparr>channelsFile := Parsed [staleDM, general]\<rparr>)
           (mergeUser alice freshProvider) = Some (Return (None, ap')) \<and>
         trace ap' = [LogLoadedFromCache 2] \<and>
         map_option Name (channels ap' ''D1'') = Some ''@alice'' \<and>
         map_option Purpose (channels ap' ''D1'') = Some ''DM with Alice A'' \<and>
         channels ap' ''C1'' = Some general"
proof -
  let ?w = "offline\<lparr>channelsFile := Parsed [staleDM, general]\<rparr>"
  let ?ap = "mergeUser alice freshProvider"
  have snap: "channelsFile ?w = Parsed [staleDM, general]" by simp
  from RefreshChannels_reload [OF snap, of 0 ?ap] obtain ap' where
    run: "RefreshChannels 0 ?w ?ap = Some (Return (None, ap'))"
    and tr: "trace ap' = trace ?ap @ [LogLoadedFromCache (length [staleDM, general])]"
    and entries: "\<forall>pre c post. [staleDM, general] = pre @ c # post \<and> ID c \<notin> ID ` set post \<longrightarrow>
              (IsIM c \<longrightarrow>
                 channels ap' (ID c) =
                   Some (mapChannel (ID c) [] [] (Topic c) (Purpose c) (User c) (Members c)
                           (MemberCount c) True (IsMpIM c) (IsPrivate c) (users ?ap))) \<and>
              (\<not> IsIM c \<longrightarrow> channels ap' (ID c) = Some c)"
    by blast
  have dm: "channels ap' ''D1'' =
      Some (mapChannel ''D1'' [] [] [] ''DM with U1'' ''U1'' [] 2 True False True (users ?ap))"
    using entries [rule_format, of "[]" staleDM "[general]"]
    by (simp add: staleDM_def general_def)
  have ch: "channels ap' ''C1'' = Some general"
    using entries [rule_format, of "[staleDM]" general "[]"]
    by (simp add: general_def)
  have us: "users ?ap ''U1'' = Some alice"
    by (simp add: mergeUser_def alice_def)
  have tr0: "trace ?ap = []"
    by (simp add: mergeUser_def freshProvider_def newWithXOXP_def newProvider_def)
  show ?thesis
    using run tr dm ch us tr0
    by (simp add: mapChannel_def alice_def)
qed

lemma noDangling_emit [simp]: "noDangling (emit es ap) = noDangling ap"
  by (simp add: noDangling_def)


lemma noDangling_mergeChannel: "noDangling ap \<Longrightarrow> noDangling (mergeChannel ch ap)"
  unfolding noDangling_def mergeChannel_def by (auto split: if_splits)



lemma noDangling_fold_mergeChannel: "noDangling ap \<Longrightarrow> noDangling (fold mergeChannel cs ap)"
  by (induction cs arbitrary: ap) (simp_all add: noDangling_mergeChannel)



lemma noDangling_ProvideEnterprise [simp]: "noDangling (ProvideEnterprise ap) = noDangling ap"
  by (simp add: ProvideEnterprise_def noDangling_def)
















section \<open>Properties of the fetch loop\<close>

lemma mergeChannel_fields [simp]:
  "users (mergeChannel ch ap) = users ap" "usersInv (mergeChannel ch ap) = usersInv ap"
  "usersDisplayNameInv (mergeChannel ch ap) = usersDisplayNameInv ap"
  "usersRealNameInv (mergeChannel ch ap) = usersRealNameInv ap"
  "usersEmailInv (mergeChannel ch ap) = usersEmailInv ap"
  "trace (mergeChannel ch ap) = trace ap"
  by (simp_all add: mergeChannel_def)

lemma fold_mergeChannel_fields [simp]:
  "users (fold mergeChannel cs ap) = users ap"
  "trace (fold mergeChannel cs ap) = trace ap"
  by (induction cs arbitrary: ap) simp_all





lemma freshProvider_simps [simp]:
  "trace freshProvider = []" "clientGeneric freshProvider = False"
  "clientEnterprise freshProvider = False" "users freshProvider = Map.empty"
  "channels freshProvider = Map.empty" "channelsInv freshProvider = Map.empty"
  by (simp_all add: freshProvider_def newWithXOXP_def newProvider_def)

lemma threePages_simps [simp]:
  "AuthTest threePages = Inr []" "Wait threePages = (\<lambda>t. True)"
  "GetConversationsContext threePages [] = Inr ([], ''c1'')"
  "GetConversationsContext threePages ''c1'' = Inr ([], ''c2'')"
  "GetConversationsContext threePages ''c2'' = Inr ([], [])"
  by (simp_all add: threePages_def offline_def)




section \<open>Failure semantics of the refresh operations\<close>

lemma fetchLoop_world:
  "GetConversationsContext w' = GetConversationsContext w \<Longrightarrow>
   GetConversationsEnterprise w' = GetConversationsEnterprise w \<Longrightarrow>
   Wait w' = Wait w \<Longrightarrow>
   fetchLoop fuel w' eid ap chans cursor = fetchLoop fuel w eid ap chans cursor"
  by (induction fuel arbitrary: eid ap chans cursor) (simp_all split: sum.split prod.split)

lemma fetchUsers_usersFile [simp]: "fetchUsers (w\<lparr>usersFile := x\<rparr>) ap = fetchUsers w ap"
  by (simp add: fetchUsers_def ProvideGeneric_def split: result.split sum.split)


lemma fetchChannels_channelsFile [simp]:
  "fetchChannels fuel (w\<lparr>channelsFile := x\<rparr>) ap = fetchChannels fuel w ap"
  by (simp add: fetchChannels_def GetChannels_def ProvideGeneric_def
      fetchLoop_world [of "w\<lparr>channelsFile := x\<rparr>" w]
      split: result.split sum.split option.split)







lemma ID_mapRaw [simp]: "ID (mapRaw um c) = raw_ID c"
  by (simp add: mapRaw_def mapChannel_def Let_def split: option.split)


lemma secondPageFails_simps [simp]:
  "AuthTest secondPageFails = Inr []" "Wait secondPageFails = (\<lambda>t. True)"
  "channelsFile secondPageFails = NoFile" "WriteFile secondPageFails = True"
  "GetConversationsContext secondPageFails [] = Inr ([rawGeneral], ''c1'')"
  "GetConversationsContext secondPageFails ''c1'' = Inl ''ratelimited''"
  by (simp_all add: secondPageFails_def offline_def)




section \<open>Properties of the text extraction\<close>

lemma TrimSpace_spaces: "TrimSpace '' a b  '' = ''a b''"
  by (simp add: TrimSpace_def DecodeRune_def DecodeLastRune_def IsSpace_def)

text \<open>The parts that \<open>deduplicateAndJoin\<close> joins are pairwise different.\<close>

lemma dedupLoop_distinct:
  "distinct unique \<Longrightarrow> (\<forall>x. seen x \<longleftrightarrow> x \<in> set unique) \<Longrightarrow>
   distinct (dedupLoop seen unique parts)"
  by (induction parts arbitrary: seen unique) simp_all

text \<open>
  Claim C10. The claim is that a text present both as the message text and inside a section
  block appears once in the output. The code compares whole parts only (the text, the joined
  text of all blocks, of all attachments, of all files): with a second block the joined
  block text differs from the message text, and the message text is returned twice.
\<close>

theorem ExtractTextFromMessage_duplicate:
  "ExtractTextFromMessage helloTwice = ''Hello'' @ newline @ ''Hello'' @ newline @ ''World''"
proof -
  define blockText where "blockText = ''Hello'' @ newline @ ''World''"
  have blocks: "extractTextFromBlocks (msg_Blocks helloTwice) = blockText"
    by (simp add: blockText_def helloTwice_def extractTextFromBlocks_def
        extractTextFromSectionBlock_def)
  have t1: "TrimSpace ''Hello'' = ''Hello''"
    by (simp add: TrimSpace_def DecodeRune_def DecodeLastRune_def IsSpace_def)
  have t2: "TrimSpace blockText = blockText"
    by (simp add: blockText_def TrimSpace_def DecodeRune_def DecodeLastRune_def IsSpace_def
        newline_def)
  have neq: "blockText \<noteq> ''Hello''" "blockText \<noteq> []"
    by (simp_all add: blockText_def newline_def)
  have parts: "(if msg_Text helloTwice \<noteq> [] then [msg_Text helloTwice] else []) @
        (if length (msg_Blocks helloTwice) > 0 \<and> extractTextFromBlocks (msg_Blocks helloTwice) \<noteq> []
         then [extractTextFromBlocks (msg_Blocks helloTwice)] else []) @
        (if length (msg_Attachments helloTwice) > 0 \<and>
            extractTextFromAttachments (msg_Attachments helloTwice) \<noteq> []
         then [extractTextFromAttachments (msg_Attachments helloTwice)] else []) @
        (if length (msg_Files helloTwice) > 0 \<and> extractTextFromFiles (msg_Files helloTwice) \<noteq> []
         then [extractTextFromFiles (msg_Files helloTwice)] else []) =
       [''Hello'', blockText]"
    unfolding blocks using neq(2) by (simp add: helloTwice_def)
  have "ExtractTextFromMessage helloTwice = ''Hello'' @ newline @ blockText"
    unfolding ExtractTextFromMessage_def parts deduplicateAndJoin_def
    using neq by (simp add: t1 t2)
  then show ?thesis by (simp add: blockText_def)
qed

end
